theory Spec2Isabelle
  imports Main
begin

section \<open>Python values seen by the backend\<close>

text \<open>
  The backend (\<^verbatim>\<open>backend/backend.py\<close>) handles the values \<^verbatim>\<open>json.load\<close> returns: \<^verbatim>\<open>None\<close>,
  booleans, unbounded integers, floats, strings, lists and dictionaries.  The records of
  the other two decoders are taken to hold such values too.

  A float is represented by the three observations the program makes of it: its
  truthiness (\<^verbatim>\<open>bool(x)\<close>, false exactly for zero), whether it is NaN (SQLite stores NaN
  as NULL) and its \<^verbatim>\<open>str(x)\<close>.  A dictionary is an association list whose first binding
  of a key is the one \<^verbatim>\<open>dict.get\<close> reads.

  Text is a byte string: the UTF-8 encoding of the \<^verbatim>\<open>str\<close>.  A \<^verbatim>\<open>str\<close> can hold a lone
  surrogate (\<^verbatim>\<open>json.load\<close> returns one for \<^verbatim>\<open>"\ud800"\<close>), which has no UTF-8 encoding; it is
  written here in the three-byte form its code point would have, the byte \<^verbatim>\<open>ED\<close> followed
  by a byte from \<^verbatim>\<open>A0\<close> to \<^verbatim>\<open>BF\<close>, which no UTF-8 text contains.  \<open>has_surrogate\<close> finds it.
\<close>

datatype pyfloat = PyFloat (fl_truthy: bool) (fl_isnan: bool) (fl_str: string)

datatype pyval =
    PNone
  | PBool bool
  | PInt int
  | PFloat pyfloat
  | PStr string
  | PList "pyval list"
  | PDict "(string \<times> pyval) list"

datatype pyerror =
    AttributeError
  | InterfaceError
  | OverflowError
  | UnicodeEncodeError
  | ProgrammingError
  | IndexError

fun has_surrogate :: "string \<Rightarrow> bool" where
  "has_surrogate (ch # ch' # rest) =
     ((ch = CHR 0xED \<and> 0xA0 \<le> (of_char ch' :: nat) \<and> (of_char ch' :: nat) \<le> 0xBF)
      \<or> has_surrogate (ch' # rest))"
| "has_surrogate _ = False"

text \<open>Truthiness, as the test \<^verbatim>\<open>if item.get('end_year')\<close> evaluates it.\<close>

fun truthy :: "pyval \<Rightarrow> bool" where
  "truthy PNone = False"
| "truthy (PBool b) = b"
| "truthy (PInt i) = (i \<noteq> 0)"
| "truthy (PFloat f) = fl_truthy f"
| "truthy (PStr s) = (s \<noteq> [])"
| "truthy (PList xs) = (xs \<noteq> [])"
| "truthy (PDict kv) = (kv \<noteq> [])"

subsection \<open>Decimal text of integers\<close>

definition digit_char :: "nat \<Rightarrow> char" where
  "digit_char d = ''0123456789'' ! d"

fun str_nat :: "nat \<Rightarrow> string" where
  "str_nat n = (if n < 10 then [digit_char n] else str_nat (n div 10) @ [digit_char (n mod 10)])"

declare str_nat.simps [simp del]

definition str_int :: "int \<Rightarrow> string" where
  "str_int i = (if i < 0 then CHR ''-'' # str_nat (nat (- i)) else str_nat (nat i))"

subsection \<open>\<^verbatim>\<open>str\<close> and \<^verbatim>\<open>repr\<close>\<close>

text \<open>
  \<^verbatim>\<open>str\<close> of a list or dictionary prints the \<^verbatim>\<open>repr\<close> of its elements.  The \<^verbatim>\<open>repr\<close> of a
  text value (quoting and escaping) belongs to the Python runtime and is a parameter
  \<open>rs\<close> here.
\<close>

fun py_join :: "string \<Rightarrow> string list \<Rightarrow> string" where
  "py_join sep [] = []"
| "py_join sep [x] = x"
| "py_join sep (x # y # ys) = x @ sep @ py_join sep (y # ys)"

fun py_repr :: "(string \<Rightarrow> string) \<Rightarrow> pyval \<Rightarrow> string" where
  "py_repr rs PNone = ''None''"
| "py_repr rs (PBool b) = (if b then ''True'' else ''False'')"
| "py_repr rs (PInt i) = str_int i"
| "py_repr rs (PFloat f) = fl_str f"
| "py_repr rs (PStr s) = rs s"
| "py_repr rs (PList xs) = ''['' @ py_join '', '' (map (py_repr rs) xs) @ '']''"
| "py_repr rs (PDict kv) =
     ''{'' @ py_join '', '' (map (\<lambda>p. rs (fst p) @ '': '' @ py_repr rs (snd p)) kv) @ ''}''"

fun py_str :: "(string \<Rightarrow> string) \<Rightarrow> pyval \<Rightarrow> string" where
  "py_str rs (PStr s) = s"
| "py_str rs v = py_repr rs v"

subsection \<open>\<^verbatim>\<open>dict.get\<close>\<close>

definition dict_get :: "(string \<times> pyval) list \<Rightarrow> string \<Rightarrow> pyval" where
  "dict_get kv k = (case map_of kv k of None \<Rightarrow> PNone | Some v \<Rightarrow> v)"

section \<open>The store\<close>

text \<open>
  The table \<^verbatim>\<open>data\<close> created by \<^verbatim>\<open>init_db\<close>: thirteen nullable schema columns, the
  \<^verbatim>\<open>INTEGER PRIMARY KEY AUTOINCREMENT\<close> column \<^verbatim>\<open>id\<close> and \<^verbatim>\<open>added_date\<close>, which defaults to
  the time of insertion.  A column holds the value bound to the \<^verbatim>\<open>INSERT\<close>; the
  engine's own conversions between column affinities are not part of the program.
\<close>

datatype sqlval = SNull | SInt int | SReal pyfloat | SText string

record schema_fields =
  title :: sqlval
  topic :: sqlval
  sector :: sqlval
  region :: sqlval
  country :: sqlval
  source :: sqlval
  end_year :: sqlval
  intensity :: sqlval
  likelihood :: sqlval
  relevance :: sqlval
  pest :: sqlval
  swot :: sqlval
  url :: sqlval

record row = schema_fields +
  row_id :: nat
  added_date :: nat

text \<open>
  The database file: the rows of \<^verbatim>\<open>data\<close> in rowid order, and \<open>seq\<close>, the largest rowid
  the table has ever held (\<^verbatim>\<open>AUTOINCREMENT\<close> keeps it in \<^verbatim>\<open>sqlite_sequence\<close>, and
  \<^verbatim>\<open>DELETE FROM data\<close> does not reset it).
\<close>

record db =
  rows :: "row list"
  seq :: nat

definition init_db :: db where
  "init_db = \<lparr>rows = [], seq = 0\<rparr>"

text \<open>
  What the program calls but does not define: Python's \<^verbatim>\<open>repr\<close> of text, SQLite's
  \<^verbatim>\<open>CURRENT_TIMESTAMP\<close> (given as the time at which the row with a given id is
  inserted), the three decoders applied to the content of the uploaded file (\<open>Inl\<close>
  carries the text of the exception raised) and werkzeug's \<^verbatim>\<open>secure_filename\<close>.
\<close>

record pyenv =
  repr_str :: "string \<Rightarrow> string"
  current_timestamp :: "nat \<Rightarrow> nat"
  json_load :: "string \<Rightarrow> string + pyval"
  read_csv :: "string \<Rightarrow> string + pyval list"
  read_excel :: "string \<Rightarrow> string + pyval list"
  secure_filename :: "string \<Rightarrow> string"

subsection \<open>Binding parameters\<close>

text \<open>
  \<^verbatim>\<open>sqlite3\<close> binds \<^verbatim>\<open>None\<close>, integers that fit 64 bits (a \<^verbatim>\<open>bool\<close> is an integer), floats
  and text that it can encode as UTF-8, which a text holding a lone surrogate is not;
  it raises on anything else.
\<close>

fun adapt :: "pyval \<Rightarrow> pyerror + sqlval" where
  "adapt PNone = Inr SNull"
| "adapt (PBool b) = Inr (SInt (if b then 1 else 0))"
| "adapt (PInt i) =
     (if - (2 ^ 63) \<le> i \<and> i < 2 ^ 63 then Inr (SInt i) else Inl OverflowError)"
| "adapt (PFloat f) = Inr (if fl_isnan f then SNull else SReal f)"
| "adapt (PStr s) = (if has_surrogate s then Inl UnicodeEncodeError else Inr (SText s))"
| "adapt (PList xs) = Inl InterfaceError"
| "adapt (PDict kv) = Inl InterfaceError"

fun adapt_all :: "pyval list \<Rightarrow> pyerror + sqlval list" where
  "adapt_all [] = Inr []"
| "adapt_all (v # vs) =
     (case adapt v of
        Inl e \<Rightarrow> Inl e
      | Inr x \<Rightarrow> (case adapt_all vs of Inl e \<Rightarrow> Inl e | Inr xs \<Rightarrow> Inr (x # xs)))"

text \<open>
  The statement \<^verbatim>\<open>INSERT INTO data (title, topic, sector, region, country, source,
  end_year, intensity, likelihood, relevance, pest, swot, url) VALUES (?, ..., ?)\<close>
  with its thirteen positional parameters.
\<close>

definition make_row :: "nat \<Rightarrow> nat \<Rightarrow> sqlval list \<Rightarrow> row option" where
  "make_row i t vals =
     (case vals of
        [v1, v2, v3, v4, v5, v6, v7, v8, v9, v10, v11, v12, v13] \<Rightarrow>
          Some \<lparr>title = v1, topic = v2, sector = v3, region = v4, country = v5,
                source = v6, end_year = v7, intensity = v8, likelihood = v9,
                relevance = v10, pest = v11, swot = v12, url = v13,
                row_id = i, added_date = t\<rparr>
      | _ \<Rightarrow> None)"

definition execute_insert :: "pyenv \<Rightarrow> db \<Rightarrow> pyval list \<Rightarrow> pyerror + db" where
  "execute_insert env c params =
     (case adapt_all params of
        Inl e \<Rightarrow> Inl e
      | Inr vals \<Rightarrow>
          (let i = Suc (seq c) in
           case make_row i (current_timestamp env i) vals of
             None \<Rightarrow> Inl ProgrammingError
           | Some r \<Rightarrow> Inr (c\<lparr>rows := rows c @ [r], seq := i\<rparr>)))"

definition execute_delete :: "db \<Rightarrow> db" where
  "execute_delete c = c\<lparr>rows := []\<rparr>"

section \<open>\<^verbatim>\<open>insert_data\<close>\<close>

text \<open>
  The tuple of parameters built for one item (lines 113 to 127).  \<^verbatim>\<open>item.get\<close> raises
  \<^verbatim>\<open>AttributeError\<close> when the item is not a dictionary.
\<close>

fun insert_params :: "pyenv \<Rightarrow> pyval \<Rightarrow> pyerror + pyval list" where
  "insert_params env (PDict item) =
     Inr [dict_get item ''title'',
          dict_get item ''topic'',
          dict_get item ''sector'',
          dict_get item ''region'',
          dict_get item ''country'',
          dict_get item ''source'',
          (if truthy (dict_get item ''end_year'')
           then PStr (py_str (repr_str env) (dict_get item ''end_year'')) else PNone),
          dict_get item ''intensity'',
          dict_get item ''likelihood'',
          dict_get item ''relevance'',
          dict_get item ''pest'',
          dict_get item ''swot'',
          dict_get item ''url'']"
| "insert_params env _ = Inl AttributeError"

text \<open>The body of the \<^verbatim>\<open>try\<close> block up to \<^verbatim>\<open>count += 1\<close>.\<close>

definition try_insert :: "pyenv \<Rightarrow> db \<Rightarrow> pyval \<Rightarrow> pyerror + db" where
  "try_insert env c item =
     (case insert_params env item of
        Inl e \<Rightarrow> Inl e
      | Inr params \<Rightarrow> execute_insert env c params)"

text \<open>
  The loop over \<^verbatim>\<open>data\<close>: an exception raised for an item is caught (its message goes
  to standard output, which is not modelled) and the loop continues.
\<close>

fun insert_loop :: "pyenv \<Rightarrow> pyval list \<Rightarrow> db \<Rightarrow> nat \<Rightarrow> db \<times> nat" where
  "insert_loop env [] c count = (c, count)"
| "insert_loop env (item # data) c count =
     (case try_insert env c item of
        Inr c' \<Rightarrow> insert_loop env data c' (count + 1)
      | Inl e \<Rightarrow> insert_loop env data c count)"

text \<open>
  The dictionaries the handlers return: \<^verbatim>\<open>{'count': ..., 'message': ...}\<close> or
  \<^verbatim>\<open>{'error': ...}\<close>.  \<^verbatim>\<open>insert_data\<close> works on one connection and commits once, after
  the loop; with a single connection the store after the call is the store after its
  last statement.
\<close>

datatype result = Summary nat string | Error string

definition insert_data :: "pyenv \<Rightarrow> pyval list \<Rightarrow> bool \<Rightarrow> db \<Rightarrow> db \<times> result" where
  "insert_data env data appending c =
     (let c1 = (if \<not> appending then execute_delete c else c);
          (c2, count) = insert_loop env data c1 0
      in (c2, Summary count (''Successfully processed '' @ str_nat count @ '' records'')))"

section \<open>Decoding an uploaded file\<close>

text \<open>
  Each \<^verbatim>\<open>process_*_file\<close> reads the file inside a \<^verbatim>\<open>try\<close> block and turns every
  exception into \<^verbatim>\<open>{'error': ...}\<close>; \<^verbatim>\<open>insert_data\<close> is only reached with the decoded
  data.  A JSON value that is not a list is wrapped into a one-element list.
\<close>

definition process_json_file :: "pyenv \<Rightarrow> string \<Rightarrow> bool \<Rightarrow> db \<Rightarrow> db \<times> result" where
  "process_json_file env content appending c =
     (case json_load env content of
        Inl e \<Rightarrow> (c, Error (''Error processing JSON file: '' @ e))
      | Inr data \<Rightarrow>
          insert_data env (case data of PList xs \<Rightarrow> xs | _ \<Rightarrow> [data]) appending c)"

definition process_csv_file :: "pyenv \<Rightarrow> string \<Rightarrow> bool \<Rightarrow> db \<Rightarrow> db \<times> result" where
  "process_csv_file env content appending c =
     (case read_csv env content of
        Inl e \<Rightarrow> (c, Error (''Error processing CSV file: '' @ e))
      | Inr data \<Rightarrow> insert_data env data appending c)"

definition process_excel_file :: "pyenv \<Rightarrow> string \<Rightarrow> bool \<Rightarrow> db \<Rightarrow> db \<times> result" where
  "process_excel_file env content appending c =
     (case read_excel env content of
        Inl e \<Rightarrow> (c, Error (''Error processing Excel file: '' @ e))
      | Inr data \<Rightarrow> insert_data env data appending c)"

section \<open>The HTTP handlers\<close>

definition lower_char :: "char \<Rightarrow> char" where
  "lower_char ch =
     (case map_of (zip ''ABCDEFGHIJKLMNOPQRSTUVWXYZ'' ''abcdefghijklmnopqrstuvwxyz'') ch of
        None \<Rightarrow> ch
      | Some l \<Rightarrow> l)"

definition lower :: "string \<Rightarrow> string" where
  "lower s = map lower_char s"

text \<open>\<^verbatim>\<open>filename.rsplit('.', 1)[1]\<close>: the text after the last dot, an \<^verbatim>\<open>IndexError\<close> without one.\<close>

definition rsplit_ext :: "string \<Rightarrow> string option" where
  "rsplit_ext filename =
     (if CHR ''.'' \<in> set filename
      then Some (rev (takeWhile (\<lambda>ch. ch \<noteq> CHR ''.'') (rev filename)))
      else None)"

definition ALLOWED_EXTENSIONS :: "string list" where
  "ALLOWED_EXTENSIONS = [''json'', ''csv'', ''xlsx'', ''xls'']"

definition allowed_file :: "string \<Rightarrow> bool" where
  "allowed_file filename =
     (case rsplit_ext filename of
        None \<Rightarrow> False
      | Some e \<Rightarrow> lower e \<in> set ALLOWED_EXTENSIONS)"

text \<open>
  A request to \<^verbatim>\<open>POST /api/upload\<close>: the uploaded file (its name and content) when the
  form has the part \<^verbatim>\<open>file\<close>, and the form field \<^verbatim>\<open>option\<close> when given.  A response is a
  status with a JSON body, or the failure of the handler with an exception nothing
  catches.  The copy of the upload kept under \<^verbatim>\<open>uploads/\<close> while the handler runs is not
  modelled.
\<close>

record upload_request =
  upload :: "(string \<times> string) option"
  form_option :: "string option"

datatype response = Response nat result | Unhandled pyerror

fun respond :: "db \<times> result \<Rightarrow> db \<times> response" where
  "respond (c, Error msg) = (c, Response 400 (Error msg))"
| "respond (c, Summary n msg) = (c, Response 200 (Summary n msg))"

definition upload_file :: "pyenv \<Rightarrow> upload_request \<Rightarrow> db \<Rightarrow> db \<times> response" where
  "upload_file env req c =
     (case upload req of
        None \<Rightarrow> (c, Response 400 (Error ''No file part''))
      | Some (fname, content) \<Rightarrow>
          if fname = [] then (c, Response 400 (Error ''No selected file''))
          else if allowed_file fname then
            (let filename = secure_filename env fname;
                 opt = (case form_option req of None \<Rightarrow> ''replace'' | Some s \<Rightarrow> s);
                 appending = (lower opt = ''append'')
             in case rsplit_ext filename of
                  None \<Rightarrow> (c, Unhandled IndexError)
                | Some e \<Rightarrow>
                    (let file_ext = lower e in
                     if file_ext = ''json'' then
                       respond (process_json_file env content appending c)
                     else if file_ext = ''csv'' then
                       respond (process_csv_file env content appending c)
                     else if file_ext = ''xlsx'' \<or> file_ext = ''xls'' then
                       respond (process_excel_file env content appending c)
                     else (c, Response 400 (Error ''Unsupported file type''))))
          else (c, Response 400 (Error ''File type not allowed'')))"

text \<open>
  \<^verbatim>\<open>GET /api/data\<close>.  The arguments are the query parameters \<^verbatim>\<open>limit\<close> and \<^verbatim>\<open>offset\<close> after
  \<^verbatim>\<open>request.args.get(..., type=int)\<close>: \<open>None\<close> when the parameter is missing or is not an
  integer.  SQLite reads a negative \<^verbatim>\<open>LIMIT\<close> as no limit and a negative \<^verbatim>\<open>OFFSET\<close> as 0.
\<close>

definition sql_limit_offset :: "int \<Rightarrow> int \<Rightarrow> 'a list \<Rightarrow> 'a list" where
  "sql_limit_offset lim off xs =
     (let ys = drop (nat off) xs in if lim < 0 then ys else take (nat lim) ys)"

definition get_data :: "int option \<Rightarrow> int option \<Rightarrow> db \<Rightarrow> pyerror + row list" where
  "get_data limit_arg offset_arg c =
     (let lim = limit_arg;
          off = (case offset_arg of None \<Rightarrow> 0 | Some i \<Rightarrow> i)
      in case lim of
           None \<Rightarrow> Inr (rows c)
         | Some l \<Rightarrow>
             (case adapt_all [PInt l, PInt off] of
                Inl e \<Rightarrow> Inl e
              | Inr _ \<Rightarrow> Inr (sql_limit_offset l off (rows c))))"

definition get_data_count :: "db \<Rightarrow> nat" where
  "get_data_count c = length (rows c)"

definition delete_data :: "db \<Rightarrow> db \<times> nat" where
  "delete_data c = (let c' = execute_delete c in (c', length (rows c')))"

definition sample_data :: "pyval list" where
  "sample_data =
     [PDict [(''title'', PStr ''Climate change impacts on agriculture''),
             (''topic'', PStr ''climate''),
             (''sector'', PStr ''agriculture''),
             (''region'', PStr ''North America''),
             (''country'', PStr ''United States''),
             (''source'', PStr ''NASA''),
             (''end_year'', PStr ''2025''),
             (''intensity'', PInt 5),
             (''likelihood'', PInt 3),
             (''relevance'', PInt 4),
             (''pest'', PStr ''Environmental''),
             (''swot'', PStr ''Threat''),
             (''url'', PStr ''https://climate.nasa.gov'')],
      PDict [(''title'', PStr ''Renewable energy adoption trends''),
             (''topic'', PStr ''energy''),
             (''sector'', PStr ''utilities''),
             (''region'', PStr ''Europe''),
             (''country'', PStr ''Germany''),
             (''source'', PStr ''IEA''),
             (''end_year'', PStr ''2023''),
             (''intensity'', PInt 4),
             (''likelihood'', PInt 5),
             (''relevance'', PInt 5),
             (''pest'', PStr ''Technological''),
             (''swot'', PStr ''Opportunity''),
             (''url'', PStr ''https://www.iea.org'')]]"

definition init_database :: "pyenv \<Rightarrow> db \<Rightarrow> db \<times> result" where
  "init_database env c = insert_data env sample_data False c"

section \<open>The connection and its transaction\<close>

text \<open>
  \<^verbatim>\<open>insert_data\<close> opens its own connection with \<^verbatim>\<open>sqlite3.connect(DATABASE)\<close>, runs its
  statements on it and calls \<^verbatim>\<open>conn.commit()\<close> once, after the loop (line 133).  The
  connection has the default isolation level, under which the \<^verbatim>\<open>sqlite3\<close> module opens a
  transaction before a \<^verbatim>\<open>DELETE\<close> or \<^verbatim>\<open>INSERT\<close> when none is open; what the statements
  change stays inside the transaction until the commit.  \<open>disk\<close> is the database file,
  which is what every other connection reads; \<open>txn\<close> is the table as this connection
  sees it while its transaction is open.
\<close>

record connection =
  disk :: db
  txn :: "db option"

definition connect :: "db \<Rightarrow> connection" where
  "connect c = \<lparr>disk = c, txn = None\<rparr>"

definition conn_view :: "connection \<Rightarrow> db" where
  "conn_view k = (case txn k of None \<Rightarrow> disk k | Some w \<Rightarrow> w)"

definition conn_begin :: "connection \<Rightarrow> connection" where
  "conn_begin k = (case txn k of None \<Rightarrow> k\<lparr>txn := Some (disk k)\<rparr> | Some w \<Rightarrow> k)"






section \<open>The delimited-text decoder\<close>

text \<open>
  Modelled from the spec: the delimited-text decoder.  The program calls
  \<^verbatim>\<open>pd.read_csv(file_path).to_dict('records')\<close>, and pandas is not part of the repository.
  The spec (section 4.2) gives the decoder as: a header row plus data rows in the
  comma-separated convention (quoted fields, embedded delimiters and newlines inside
  quotes, a doubled quote for a quote); each data row becomes one field mapping keyed
  by the header names; a cell parseable as a number becomes numeric, else text; empty
  cells become absent; a row with more cells than the header is malformed.
  \<open>csv_scan inq cell line s\<close> splits the text into lines of cells; \<open>inq\<close> says whether the
  scan is inside a quoted field, \<open>cell\<close> and \<open>line\<close> are the cell and the line read so far
  (reversed).
\<close>

fun csv_scan :: "bool \<Rightarrow> string \<Rightarrow> string list \<Rightarrow> string \<Rightarrow> string list list" where
  "csv_scan inq cell line [] =
     (if cell = [] \<and> line = [] then [] else [rev (rev cell # line)])"
| "csv_scan inq cell line (ch # rest) =
     (if inq then
        (if ch = CHR 0x22 then
           (case rest of
              [] \<Rightarrow> csv_scan False cell line rest
            | ch' # rest' \<Rightarrow>
                if ch' = CHR 0x22 then csv_scan True (ch' # cell) line rest'
                else csv_scan False cell line rest)
         else csv_scan True (ch # cell) line rest)
      else if ch = CHR 0x22 then csv_scan True cell line rest
      else if ch = CHR '','' then csv_scan False [] (rev cell # line) rest
      else if ch = CHR 0x0A then
        (if cell = [] \<and> line = [] then csv_scan False [] [] rest
         else rev (rev cell # line) # csv_scan False [] [] rest)
      else if ch = CHR 0x0D then csv_scan False cell line rest
      else csv_scan False (ch # cell) line rest)"

text \<open>
  Modelled from the spec: which cells are numbers.  An optionally signed run of digits
  is an integer; an optionally signed decimal with a fraction or an exponent is a
  float, whose value is made by the parameter \<open>mkf\<close> (Python's \<^verbatim>\<open>float\<close>).
\<close>

definition is_digit :: "char \<Rightarrow> bool" where
  "is_digit ch = (let n = (of_char ch :: nat) in 48 \<le> n \<and> n \<le> 57)"

text \<open>Modelled from the spec: the number a run of decimal digits denotes.\<close>

definition digits_value :: "string \<Rightarrow> nat" where
  "digits_value ds = foldl (\<lambda>acc ch. 10 * acc + (of_char ch - 48)) 0 ds"

text \<open>Modelled from the spec: a cell without its leading sign, if it has one.\<close>

definition strip_sign :: "string \<Rightarrow> string" where
  "strip_sign s =
     (case s of
        [] \<Rightarrow> []
      | ch # rest \<Rightarrow> if ch = CHR ''-'' \<or> ch = CHR ''+'' then rest else s)"

text \<open>Modelled from the spec: the integer a cell denotes, if it is an integer literal.\<close>

definition int_literal :: "string \<Rightarrow> int option" where
  "int_literal s =
     (let ds = strip_sign s in
      if ds \<noteq> [] \<and> list_all is_digit ds
      then Some (if hd s = CHR ''-'' then - int (digits_value ds) else int (digits_value ds))
      else None)"

text \<open>Modelled from the spec: whether a cell is a decimal literal with a fraction or an exponent.\<close>

definition float_literal :: "string \<Rightarrow> bool" where
  "float_literal s =
     (let s1 = strip_sign s;
          ip = takeWhile is_digit s1;
          r1 = dropWhile is_digit s1;
          fp = (case r1 of [] \<Rightarrow> [] | ch # t \<Rightarrow> if ch = CHR ''.'' then takeWhile is_digit t else []);
          r2 = (case r1 of [] \<Rightarrow> [] | ch # t \<Rightarrow> if ch = CHR ''.'' then dropWhile is_digit t else r1)
      in (ip \<noteq> [] \<or> fp \<noteq> []) \<and>
         (case r2 of
            [] \<Rightarrow> True
          | ch # t \<Rightarrow>
              (ch = CHR ''e'' \<or> ch = CHR ''E'') \<and> strip_sign t \<noteq> []
                \<and> list_all is_digit (strip_sign t)))"

text \<open>Modelled from the spec: the typed value of a cell; \<open>None\<close> is an absent value.\<close>

definition csv_value :: "(string \<Rightarrow> pyfloat) \<Rightarrow> string \<Rightarrow> pyval option" where
  "csv_value mkf cell =
     (if cell = [] then None
      else case int_literal cell of
             Some i \<Rightarrow> Some (PInt i)
           | None \<Rightarrow> if float_literal cell then Some (PFloat (mkf cell)) else Some (PStr cell))"

text \<open>Modelled from the spec: the field mapping of a data row, keyed by the header.\<close>

definition csv_record :: "(string \<Rightarrow> pyfloat) \<Rightarrow> string list \<Rightarrow> string list \<Rightarrow> pyval" where
  "csv_record mkf header cells =
     PDict (List.map_filter
       (\<lambda>p. case csv_value mkf (snd p) of None \<Rightarrow> None | Some v \<Rightarrow> Some (fst p, v))
       (zip header cells))"

text \<open>Modelled from the spec: the decoder, from the content of the file to the records.\<close>

definition csv_decode :: "(string \<Rightarrow> pyfloat) \<Rightarrow> string \<Rightarrow> string + pyval list" where
  "csv_decode mkf content =
     (case csv_scan False [] [] content of
        [] \<Rightarrow> Inr []
      | header # lines \<Rightarrow>
          if list_all (\<lambda>cells. length cells \<le> length header) lines
          then Inr (map (csv_record mkf header) lines)
          else Inl ''MalformedTable'')"

section \<open>Well-formed records and reachable stores\<close>

text \<open>
  A value is storable when it is \<^verbatim>\<open>None\<close>, a boolean, an integer that fits 64 bits, a
  float, or a text without a lone surrogate.  A record is well formed when it is a JSON
  object, each of its twelve schema fields other than \<^verbatim>\<open>end_year\<close> holds a storable value
  (an absent field reads as \<^verbatim>\<open>None\<close>), and the text made of a truthy \<^verbatim>\<open>end_year\<close> holds no
  lone surrogate.  These are the records whose insertion does not raise
  (\<open>try_insert_Inl_iff\<close> below).  Every store the handlers produce from the empty table
  satisfies \<open>db_ok\<close>: no row has an id above \<open>seq\<close>.
\<close>

definition storable :: "pyval \<Rightarrow> bool" where
  "storable v =
     (case v of
        PInt i \<Rightarrow> - (2 ^ 63) \<le> i \<and> i < 2 ^ 63
      | PStr s \<Rightarrow> \<not> has_surrogate s
      | PList xs \<Rightarrow> False
      | PDict kv \<Rightarrow> False
      | _ \<Rightarrow> True)"

fun well_formed :: "pyenv \<Rightarrow> pyval \<Rightarrow> bool" where
  "well_formed env (PDict item) =
     (list_all (\<lambda>k. storable (dict_get item k))
        [''title'', ''topic'', ''sector'', ''region'', ''country'', ''source'',
         ''intensity'', ''likelihood'', ''relevance'', ''pest'', ''swot'', ''url'']
      \<and> storable (if truthy (dict_get item ''end_year'')
                   then PStr (py_str (repr_str env) (dict_get item ''end_year''))
                   else PNone))"
| "well_formed env _ = False"

definition db_ok :: "db \<Rightarrow> bool" where
  "db_ok c = list_all (\<lambda>r. row_id r \<le> seq c) (rows c)"

text \<open>
  A runtime and a store for the worked examples.  The runtime's \<open>json_load\<close> reads three
  files (\<^verbatim>\<open>[]\<close>, \<^verbatim>\<open>[{}, {}]\<close> and \<^verbatim>\<open>[{}, 5]\<close>) and fails on every other content; its other
  decoders fail; the store holds one row, with id 1, inserted at time 1001.
\<close>

definition example_env :: pyenv where
  "example_env =
     \<lparr>repr_str = (\<lambda>s. s),
      current_timestamp = (\<lambda>i. 1000 + i),
      json_load = (\<lambda>s. if s = ''[]'' then Inr (PList [])
                       else if s = ''[{}, {}]'' then Inr (PList [PDict [], PDict []])
                       else if s = ''[{}, 5]'' then Inr (PList [PDict [], PInt 5])
                       else Inl ''Expecting value''),
      read_csv = (\<lambda>s. Inl ''No columns to parse from file''),
      read_excel = (\<lambda>s. Inl ''File is not a zip file''),
      secure_filename = (\<lambda>s. s)\<rparr>"

definition example_db :: db where
  "example_db =
     \<lparr>rows = [\<lparr>title = SText ''old'', topic = SNull, sector = SNull, region = SNull,
               country = SNull, source = SNull, end_year = SNull, intensity = SInt 1,
               likelihood = SNull, relevance = SNull, pest = SNull, swot = SNull,
               url = SNull, row_id = 1, added_date = 1001\<rparr>],
      seq = 1\<rparr>"

section \<open>Properties\<close>

lemma str_nat_digit: "n < 10 \<Longrightarrow> str_nat n = [digit_char n]"
  by (simp add: str_nat.simps)

subsection \<open>Inserting one record\<close>

lemma adapt_Inr_iff: "(\<exists>x. adapt v = Inr x) = storable v"
  by (cases v) (auto simp: storable_def)

lemma adapt_all_storable:
  "list_all storable ps \<Longrightarrow> \<exists>vs. adapt_all ps = Inr vs \<and> length vs = length ps"
proof (induction ps)
  case Nil
  then show ?case by simp
next
  case (Cons p ps)
  then obtain x where "adapt p = Inr x" using adapt_Inr_iff [of p] by auto
  with Cons show ?case by auto
qed

lemma adapt_all_not_storable:
  "\<not> list_all storable ps \<Longrightarrow> \<exists>e. adapt_all ps = Inl e"
proof (induction ps)
  case Nil
  then show ?case by simp
next
  case (Cons p ps)
  show ?case
  proof (cases "adapt p")
    case (Inl e)
    then show ?thesis by simp
  next
    case (Inr x)
    then have "storable p" using adapt_Inr_iff [of p] by auto
    with Cons Inr show ?thesis by (auto split: sum.splits)
  qed
qed

lemma make_row_13:
  "length vs = 13 \<Longrightarrow> \<exists>r. make_row i t vs = Some r \<and> row_id r = i \<and> added_date r = t"
  unfolding make_row_def
  by (auto simp: eval_nat_numeral length_Suc_conv)

lemma insert_params_length: "insert_params env item = Inr ps \<Longrightarrow> length ps = 13"
  by (cases item) auto

lemma insert_params_storable:
  "insert_params env item = Inr ps \<Longrightarrow> list_all storable ps = well_formed env item"
  by (cases item) (auto simp: storable_def)

lemma insert_params_Inl: "insert_params env item = Inl e \<Longrightarrow> \<not> well_formed env item"
  by (cases item) auto

lemma try_insert_well_formed:
  assumes "well_formed env item"
  shows "\<exists>r. try_insert env c item = Inr (c\<lparr>rows := rows c @ [r], seq := Suc (seq c)\<rparr>)
             \<and> row_id r = Suc (seq c)"
proof -
  from assms obtain ps where ps: "insert_params env item = Inr ps"
    by (cases "insert_params env item") (auto dest: insert_params_Inl)
  with assms have "list_all storable ps" by (simp add: insert_params_storable)
  then obtain vs where vs: "adapt_all ps = Inr vs" "length vs = length ps"
    using adapt_all_storable by blast
  with ps have "length vs = 13" by (simp add: insert_params_length)
  then obtain r where "make_row (Suc (seq c)) (current_timestamp env (Suc (seq c))) vs = Some r"
    "row_id r = Suc (seq c)"
    using make_row_13 by blast
  with ps vs show ?thesis
    by (intro exI [of _ r]) (simp add: try_insert_def execute_insert_def)
qed

lemma try_insert_not_well_formed:
  assumes "\<not> well_formed env item"
  shows "\<exists>e. try_insert env c item = Inl e"
proof (cases "insert_params env item")
  case (Inl e)
  then show ?thesis by (simp add: try_insert_def)
next
  case (Inr ps)
  with assms have "\<not> list_all storable ps" by (simp add: insert_params_storable)
  then obtain e where "adapt_all ps = Inl e" using adapt_all_not_storable by blast
  with Inr show ?thesis by (simp add: try_insert_def execute_insert_def)
qed

lemma try_insert_Inl_iff: "(\<exists>e. try_insert env c item = Inl e) = (\<not> well_formed env item)"
  using try_insert_well_formed [of env item c] try_insert_not_well_formed [of env item c]
  by auto

text \<open>The four ways in which the insertion of a record raises.\<close>

lemma try_insert_raises:
  "try_insert env c (PInt 5) = Inl AttributeError"
  "try_insert env c (PDict [(''title'', PList [])]) = Inl InterfaceError"
  "try_insert env c (PDict [(''intensity'', PInt (2 ^ 63))]) = Inl OverflowError"
  "try_insert env c (PDict [(''title'', PStr [CHR 0xED, CHR 0xA0, CHR 0x80])])
     = Inl UnicodeEncodeError"
  "try_insert env c (PDict [(''end_year'', PStr [CHR 0xED, CHR 0xA0, CHR 0x80])])
     = Inl UnicodeEncodeError"
  by (simp_all add: try_insert_def execute_insert_def dict_get_def)

subsection \<open>The loop of \<^verbatim>\<open>insert_data\<close>\<close>

lemma insert_loop_rows:
  "insert_loop env data c n = (c', n') \<Longrightarrow>
     \<exists>new. rows c' = rows c @ new
         \<and> length new = length (filter (well_formed env) data)
         \<and> n' = n + length (filter (well_formed env) data)
         \<and> seq c' = seq c + length (filter (well_formed env) data)
         \<and> list_all (\<lambda>r. seq c < row_id r \<and> row_id r \<le> seq c') new"
proof (induction data arbitrary: c n)
  case Nil
  then show ?case by simp
next
  case (Cons item data)
  show ?case
  proof (cases "well_formed env item")
    case True
    then obtain r where r: "try_insert env c item = Inr (c\<lparr>rows := rows c @ [r], seq := Suc (seq c)\<rparr>)"
      "row_id r = Suc (seq c)"
      using try_insert_well_formed by blast
    let ?c1 = "c\<lparr>rows := rows c @ [r], seq := Suc (seq c)\<rparr>"
    from Cons.prems r have "insert_loop env data ?c1 (n + 1) = (c', n')" by simp
    from Cons.IH [OF this] obtain new where new:
      "rows c' = rows ?c1 @ new" "length new = length (filter (well_formed env) data)"
      "n' = n + 1 + length (filter (well_formed env) data)"
      "seq c' = seq ?c1 + length (filter (well_formed env) data)"
      "list_all (\<lambda>r. seq ?c1 < row_id r \<and> row_id r \<le> seq c') new"
      by blast
    have "list_all (\<lambda>r. seq c < row_id r \<and> row_id r \<le> seq c') (r # new)"
      using new(4,5) r(2) by (auto simp: list_all_iff)
    with new True show ?thesis
      by (intro exI [of _ "r # new"]) simp
  next
    case False
    then obtain e where "try_insert env c item = Inl e"
      using try_insert_not_well_formed by blast
    with Cons.prems have "insert_loop env data c n = (c', n')" by simp
    from Cons.IH [OF this] False show ?thesis by simp
  qed
qed

lemma insert_loop_skip:
  assumes "\<not> well_formed env bad"
  shows "insert_loop env (xs @ bad # ys) c n = insert_loop env (xs @ ys) c n"
proof (induction xs arbitrary: c n)
  case Nil
  from assms obtain e where "try_insert env c bad = Inl e"
    using try_insert_not_well_formed by blast
  then show ?case by simp
next
  case (Cons x xs)
  then show ?case by (simp split: sum.splits)
qed

lemma insert_data_rows:
  assumes "insert_data env data appending c = (c', res)"
  shows "\<exists>new. rows c' = (if appending then rows c else []) @ new
           \<and> length new = length (filter (well_formed env) data)
           \<and> seq c' = seq c + length (filter (well_formed env) data)
           \<and> list_all (\<lambda>r. seq c < row_id r \<and> row_id r \<le> seq c') new
           \<and> res = Summary (length (filter (well_formed env) data))
                 (''Successfully processed '' @ str_nat (length (filter (well_formed env) data))
                    @ '' records'')"
proof -
  let ?c1 = "if \<not> appending then execute_delete c else c"
  obtain c2 n where loop: "insert_loop env data ?c1 0 = (c2, n)"
    by (cases "insert_loop env data ?c1 0")
  with assms have c': "c' = c2"
    and res: "res = Summary n (''Successfully processed '' @ str_nat n @ '' records'')"
    by (simp_all add: insert_data_def Let_def)
  have c1: "seq ?c1 = seq c" "rows ?c1 = (if appending then rows c else [])"
    by (simp_all add: execute_delete_def)
  from insert_loop_rows [OF loop] obtain new where
    "rows c2 = rows ?c1 @ new" "length new = length (filter (well_formed env) data)"
    "n = 0 + length (filter (well_formed env) data)"
    "seq c2 = seq ?c1 + length (filter (well_formed env) data)"
    "list_all (\<lambda>r. seq ?c1 < row_id r \<and> row_id r \<le> seq c2) new"
    by blast
  then have "rows c2 = (if appending then rows c else []) @ new"
    "length new = length (filter (well_formed env) data)"
    "n = length (filter (well_formed env) data)"
    "seq c2 = seq c + length (filter (well_formed env) data)"
    "list_all (\<lambda>r. seq c < row_id r \<and> row_id r \<le> seq c2) new"
    unfolding c1 by simp_all
  with c' res show ?thesis
    by (intro exI [of _ new]) simp
qed

lemma filter_well_formed_all: "list_all (well_formed env) items \<Longrightarrow> filter (well_formed env) items = items"
  by (induction items) auto

lemma insert_data_db_ok:
  assumes "db_ok c" and "insert_data env data appending c = (c', res)"
  shows "db_ok c'"
proof -
  from insert_data_rows [OF assms(2)] obtain new where new:
    "rows c' = (if appending then rows c else []) @ new"
    "seq c' = seq c + length (filter (well_formed env) data)"
    "list_all (\<lambda>r. seq c < row_id r \<and> row_id r \<le> seq c') new"
    by blast
  with assms(1) show ?thesis
    by (auto simp: db_ok_def list_all_iff)
qed

lemma init_db_ok: "db_ok init_db"
  by (simp add: db_ok_def init_db_def)

section \<open>Replace and append\<close>

text \<open>
  Claim C1.  When a JSON file decodes to an array of \<open>N\<close> well-formed records and is
  ingested in replace mode, \<^verbatim>\<open>GET /api/data/count\<close> then returns exactly \<open>N\<close>, and no
  record that was in the store before remains: every row now in the table has an id
  that no earlier row had.
\<close>

theorem replace_count_and_prior_gone:
  assumes "db_ok c" and "list_all (well_formed env) items"
    and "json_load env content = Inr (PList items)"
    and "process_json_file env content False c = (c', res)"
  shows "get_data_count c' = length items
       \<and> (\<forall>r \<in> set (rows c'). \<forall>old \<in> set (rows c). row_id r \<noteq> row_id old)"
proof -
  from assms(3,4) have "insert_data env items False c = (c', res)"
    by (simp add: process_json_file_def)
  from insert_data_rows [OF this] obtain new where new:
    "rows c' = new" "length new = length (filter (well_formed env) items)"
    "list_all (\<lambda>r. seq c < row_id r \<and> row_id r \<le> seq c') new"
    by auto
  have "\<forall>old \<in> set (rows c). row_id old \<le> seq c"
    using assms(1) by (simp add: db_ok_def list_all_iff)
  with new assms(2) show ?thesis
    by (fastforce simp: get_data_count_def filter_well_formed_all list_all_iff)
qed

theorem replace_count_and_prior_gone_witness:
  "db_ok example_db
   \<and> list_all (well_formed example_env) [PDict [], PDict []]
   \<and> json_load example_env ''[{}, {}]'' = Inr (PList [PDict [], PDict []])
   \<and> get_data_count (fst (process_json_file example_env ''[{}, {}]'' False example_db))
       = length [PDict [], PDict []]
   \<and> list_all (\<lambda>r. list_all (\<lambda>old. row_id r \<noteq> row_id old) (rows example_db))
         (rows (fst (process_json_file example_env ''[{}, {}]'' False example_db)))"
proof -
  have h1: "db_ok example_db" by (simp add: db_ok_def example_db_def)
  have h2: "list_all (well_formed example_env) [PDict [], PDict []]"
    by (simp add: storable_def dict_get_def)
  have h3: "json_load example_env ''[{}, {}]'' = Inr (PList [PDict [], PDict []])"
    by (simp add: example_env_def)
  show ?thesis
    using h1 h2 h3 replace_count_and_prior_gone [OF h1 h2 h3 surjective_pairing]
    unfolding list_all_iff by blast
qed

text \<open>
  Claim C2.  Ingesting a batch of \<open>N\<close> well-formed records in append mode into a store
  holding \<open>M\<close> records leaves \<open>M + N\<close> records, and the first \<open>M\<close> rows of the table are
  the rows it held before, with the same ids and the same field values.
\<close>

theorem append_count_and_prior_kept:
  assumes "list_all (well_formed env) items"
    and "insert_data env items True c = (c', res)"
  shows "get_data_count c' = get_data_count c + length items
       \<and> take (get_data_count c) (rows c') = rows c"
proof -
  from insert_data_rows [OF assms(2)] obtain new where
    "rows c' = rows c @ new" "length new = length (filter (well_formed env) items)"
    by auto
  with assms(1) show ?thesis
    by (simp add: get_data_count_def filter_well_formed_all)
qed

theorem append_count_and_prior_kept_witness:
  "list_all (well_formed example_env) [PDict [], PDict []]
   \<and> get_data_count (fst (insert_data example_env [PDict [], PDict []] True example_db))
       = get_data_count example_db + length [PDict [], PDict []]
   \<and> take (get_data_count example_db)
        (rows (fst (insert_data example_env [PDict [], PDict []] True example_db)))
       = rows example_db"
proof -
  have h: "list_all (well_formed example_env) [PDict [], PDict []]"
    by (simp add: storable_def dict_get_def)
  show ?thesis
    using h append_count_and_prior_kept [OF h surjective_pairing] by blast
qed

section \<open>Failures of single records\<close>

text \<open>
  Claim C3.  A record whose insertion raises (it is not an object, or a value cannot be
  bound: a list, an object, an integer beyond 64 bits, a text with a lone surrogate) is
  skipped: the batch gives the same store and the same answer as the batch without that
  record, so the records after it are still inserted; the answer is the summary, never
  an error; and the count is the number of the other records that were inserted.
\<close>

theorem failed_record_skipped:
  assumes "try_insert env c1 bad = Inl e"
  shows "insert_data env (xs @ bad # ys) appending c = insert_data env (xs @ ys) appending c
       \<and> (\<exists>c' msg. insert_data env (xs @ bad # ys) appending c =
             (c', Summary (length (filter (well_formed env) xs) + length (filter (well_formed env) ys)) msg))"
proof -
  from assms have bad: "\<not> well_formed env bad" using try_insert_Inl_iff by blast
  then have eq: "insert_data env (xs @ bad # ys) appending c = insert_data env (xs @ ys) appending c"
    by (simp add: insert_data_def insert_loop_skip)
  obtain c' res where r: "insert_data env (xs @ ys) appending c = (c', res)"
    by (cases "insert_data env (xs @ ys) appending c")
  from insert_data_rows [OF r] r eq show ?thesis by auto
qed

theorem failed_record_skipped_witness:
  "try_insert example_env init_db (PDict [(''title'', PStr [CHR 0xED, CHR 0xA0, CHR 0x80])])
     = Inl UnicodeEncodeError
   \<and> insert_data example_env
         ([PDict []] @ PDict [(''title'', PStr [CHR 0xED, CHR 0xA0, CHR 0x80])] # [PDict []])
         False example_db
       = insert_data example_env ([PDict []] @ [PDict []]) False example_db
   \<and> (\<exists>c' msg. insert_data example_env
         ([PDict []] @ PDict [(''title'', PStr [CHR 0xED, CHR 0xA0, CHR 0x80])] # [PDict []])
         False example_db
         = (c', Summary (length (filter (well_formed example_env) [PDict []])
                         + length (filter (well_formed example_env) [PDict []])) msg))"
proof -
  have h: "try_insert example_env init_db
             (PDict [(''title'', PStr [CHR 0xED, CHR 0xA0, CHR 0x80])])
           = Inl UnicodeEncodeError"
    by (simp add: try_insert_def execute_insert_def dict_get_def)
  show ?thesis
    using h failed_record_skipped [OF h] by blast
qed


section \<open>Normalising \<^verbatim>\<open>end_year\<close>\<close>

lemma adapt_all_nth:
  "adapt_all ps = Inr vs \<Longrightarrow> i < length ps \<Longrightarrow> adapt (ps ! i) = Inr (vs ! i)"
proof (induction ps arbitrary: vs i)
  case Nil
  then show ?case by simp
next
  case (Cons p ps)
  then show ?case
    by (cases i) (auto split: sum.splits)
qed

lemma make_row_end_year: "make_row i t vs = Some r \<Longrightarrow> end_year r = vs ! 6"
  unfolding make_row_def
  by (auto split: list.splits)

lemma truthy_iff:
  "truthy v =
     (v \<noteq> PNone \<and> v \<noteq> PBool False \<and> v \<noteq> PInt 0 \<and> v \<noteq> PStr [] \<and> v \<noteq> PList []
      \<and> v \<noteq> PDict [] \<and> (\<forall>f. v = PFloat f \<longrightarrow> fl_truthy f))"
  by (cases v) auto

text \<open>
  Claim C4, as stated: \<^verbatim>\<open>end_year\<close> is stored as text whenever it is present and not null.
  The program tests the truthiness of the value, not its presence: a record with
  \<^verbatim>\<open>end_year: 0\<close> is stored with a null \<^verbatim>\<open>end_year\<close>.
\<close>

theorem end_year_zero_counterexample:
  "dict_get [(''end_year'', PInt 0)] ''end_year'' = PInt 0
   \<and> PInt 0 \<noteq> PNone
   \<and> map end_year (rows (fst (insert_data example_env [PDict [(''end_year'', PInt 0)]] False init_db)))
       = [SNull]"
  by (simp add: dict_get_def insert_data_def execute_delete_def init_db_def try_insert_def
      execute_insert_def make_row_def example_env_def)

text \<open>
  Claim C4, amended.  For every record that is inserted, the stored \<^verbatim>\<open>end_year\<close> is the
  text \<^verbatim>\<open>str(v)\<close> of the field's value \<open>v\<close> whenever \<open>v\<close> is truthy (the number 2025 is stored
  as the text \<^verbatim>\<open>2025\<close>), and it is null exactly when \<open>v\<close> is not truthy: when the field is
  absent or null, and also when it is \<^verbatim>\<open>0\<close>, \<^verbatim>\<open>0.0\<close>, \<^verbatim>\<open>false\<close>, the empty text or an empty
  list or object.
\<close>

theorem end_year_normalized:
  assumes "try_insert env c (PDict item) = Inr c'"
  shows "\<exists>r. rows c' = rows c @ [r]
           \<and> end_year r =
               (if truthy (dict_get item ''end_year'')
                then SText (py_str (repr_str env) (dict_get item ''end_year''))
                else SNull)
           \<and> (end_year r = SNull) = (\<not> truthy (dict_get item ''end_year''))"
proof -
  obtain ps where ps: "insert_params env (PDict item) = Inr ps"
    and ps6: "ps ! 6 = (if truthy (dict_get item ''end_year'')
                then PStr (py_str (repr_str env) (dict_get item ''end_year''))
                else PNone)"
    and len: "length ps = 13"
    by simp
  from assms ps obtain vs r where vs: "adapt_all ps = Inr vs"
    and r: "make_row (Suc (seq c)) (current_timestamp env (Suc (seq c))) vs = Some r"
    and c': "c' = c\<lparr>rows := rows c @ [r], seq := Suc (seq c)\<rparr>"
    by (auto simp: try_insert_def execute_insert_def Let_def split: sum.splits option.splits)
  from adapt_all_nth [OF vs, of 6] len have "adapt (ps ! 6) = Inr (vs ! 6)" by simp
  with ps6 make_row_end_year [OF r]
  have "end_year r =
               (if truthy (dict_get item ''end_year'')
                then SText (py_str (repr_str env) (dict_get item ''end_year''))
                else SNull)"
    by (auto split: if_splits)
  with c' show ?thesis by (intro exI [of _ r]) simp
qed

theorem end_year_normalized_witness:
  "try_insert example_env init_db (PDict [(''end_year'', PInt 2025)]) =
     Inr \<lparr>rows = [\<lparr>title = SNull, topic = SNull, sector = SNull, region = SNull,
               country = SNull, source = SNull, end_year = SText ''2025'', intensity = SNull,
               likelihood = SNull, relevance = SNull, pest = SNull, swot = SNull,
               url = SNull, row_id = 1, added_date = 1001\<rparr>],
      seq = 1\<rparr>
   \<and> (\<exists>r. rows \<lparr>rows = [\<lparr>title = SNull, topic = SNull, sector = SNull, region = SNull,
               country = SNull, source = SNull, end_year = SText ''2025'', intensity = SNull,
               likelihood = SNull, relevance = SNull, pest = SNull, swot = SNull,
               url = SNull, row_id = 1, added_date = 1001\<rparr>],
      seq = 1\<rparr> = rows init_db @ [r]
           \<and> end_year r = SText ''2025'')"
proof -
  have h: "try_insert example_env init_db (PDict [(''end_year'', PInt 2025)]) =
     Inr \<lparr>rows = [\<lparr>title = SNull, topic = SNull, sector = SNull, region = SNull,
               country = SNull, source = SNull, end_year = SText ''2025'', intensity = SNull,
               likelihood = SNull, relevance = SNull, pest = SNull, swot = SNull,
               url = SNull, row_id = 1, added_date = 1001\<rparr>],
      seq = 1\<rparr>"
    by (simp add: dict_get_def init_db_def try_insert_def execute_insert_def make_row_def
        example_env_def str_int_def str_nat.simps digit_char_def)
  have s: "py_str (repr_str example_env) (PInt 2025) = ''2025''"
    by (simp add: str_int_def str_nat.simps digit_char_def)
  show ?thesis
    using h end_year_normalized [OF h] s by (auto simp: dict_get_def)
qed

section \<open>Decoding a CSV upload\<close>

lemma csv_example_decoded:
  "csv_decode mkf (''title,topic,intensity'' @ [CHR 0x0A, CHR 0x22] @ ''A,B'' @ [CHR 0x22]
                     @ '',x,5'' @ [CHR 0x0A])
   = Inr [PDict [(''title'', PStr ''A,B''), (''topic'', PStr ''x''), (''intensity'', PInt 5)]]"
  by (simp add: csv_decode_def csv_record_def csv_value_def int_literal_def float_literal_def
      strip_sign_def is_digit_def digits_value_def List.map_filter_simps)

text \<open>
  Claim C5.  With the decoder of the spec, ingesting the CSV text whose header is
  \<^verbatim>\<open>title,topic,intensity\<close> and whose only data row is \<^verbatim>\<open>"A,B",x,5\<close> (in replace mode)
  leaves exactly one stored record, with title \<^verbatim>\<open>A,B\<close>, topic \<^verbatim>\<open>x\<close>, intensity 5 and every
  other schema field null.
\<close>

theorem csv_example_record:
  "process_csv_file (env\<lparr>read_csv := csv_decode mkf\<rparr>)
     (''title,topic,intensity'' @ [CHR 0x0A, CHR 0x22] @ ''A,B'' @ [CHR 0x22]
        @ '',x,5'' @ [CHR 0x0A]) False c
   = (c\<lparr>rows :=
          [\<lparr>title = SText ''A,B'', topic = SText ''x'', sector = SNull, region = SNull,
            country = SNull, source = SNull, end_year = SNull, intensity = SInt 5,
            likelihood = SNull, relevance = SNull, pest = SNull, swot = SNull, url = SNull,
            row_id = Suc (seq c), added_date = current_timestamp env (Suc (seq c))\<rparr>],
        seq := Suc (seq c)\<rparr>,
      Summary 1 ''Successfully processed 1 records'')"
  using csv_example_decoded [of mkf]
  by (simp add: process_csv_file_def insert_data_def execute_delete_def
      try_insert_def execute_insert_def make_row_def dict_get_def str_nat_digit digit_char_def)

section \<open>Listing\<close>

lemma get_data_no_limit: "get_data None offset_arg c = Inr (rows c)"
  by (simp add: get_data_def)

text \<open>
  Claim C6.  The claim is that without a limit the listing holds the stored records
  from the given offset on.  The handler reads \<^verbatim>\<open>offset\<close> but adds \<^verbatim>\<open>LIMIT ? OFFSET ?\<close>
  only when \<^verbatim>\<open>limit\<close> is given.  On a store with one row, the request with offset 1 and
  no limit returns that row, although the listing from offset 1 on is empty; with a
  limit, the same offset is applied.
\<close>

theorem get_data_ignores_offset:
  "get_data None (Some 1) example_db = Inr (rows example_db)
   \<and> rows example_db \<noteq> drop 1 (rows example_db)
   \<and> get_data (Some 10) (Some 1) example_db = Inr (drop 1 (rows example_db))"
  by (simp add: get_data_def example_db_def sql_limit_offset_def)

section \<open>Uploads that cannot be decoded\<close>

lemma allowed_file_nonempty: "allowed_file fname \<Longrightarrow> fname \<noteq> []"
  by (auto simp: allowed_file_def rsplit_ext_def)

lemma upload_file_dispatch:
  assumes "upload req = Some (fname, content)" and "allowed_file fname"
    and "rsplit_ext (secure_filename env fname) = Some e"
  shows "upload_file env req c =
     (let appending =
            (lower (case form_option req of None \<Rightarrow> ''replace'' | Some s \<Rightarrow> s) = ''append'')
      in if lower e = ''json'' then respond (process_json_file env content appending c)
         else if lower e = ''csv'' then respond (process_csv_file env content appending c)
         else if lower e = ''xlsx'' \<or> lower e = ''xls'' then
           respond (process_excel_file env content appending c)
         else (c, Response 400 (Error ''Unsupported file type'')))"
  using assms allowed_file_nonempty [OF assms(2)]
  by (simp add: upload_file_def Let_def)

text \<open>
  Claim C7.  When the decoder chosen for an upload fails as a whole (\<^verbatim>\<open>json.load\<close>,
  \<^verbatim>\<open>read_csv\<close> or \<^verbatim>\<open>read_excel\<close> raises), the answer is status 400 with an error body and
  the store is the one before the request, in replace mode as in append mode.
\<close>

theorem decode_failure_leaves_store:
  assumes "upload req = Some (fname, content)" and "allowed_file fname"
    and "rsplit_ext (secure_filename env fname) = Some e"
    and "(lower e = ''json'' \<and> json_load env content = Inl err)
       \<or> (lower e = ''csv'' \<and> read_csv env content = Inl err)
       \<or> ((lower e = ''xlsx'' \<or> lower e = ''xls'') \<and> read_excel env content = Inl err)"
  shows "\<exists>msg. upload_file env req c = (c, Response 400 (Error msg))"
  using assms(4)
  unfolding upload_file_dispatch [OF assms(1-3)]
  by (auto simp: Let_def process_json_file_def process_csv_file_def process_excel_file_def)

theorem decode_failure_leaves_store_witness:
  "upload \<lparr>upload = Some (''data.JSON'', ''{''), form_option = Some ''replace''\<rparr>
     = Some (''data.JSON'', ''{'')
   \<and> allowed_file ''data.JSON''
   \<and> rsplit_ext (secure_filename example_env ''data.JSON'') = Some ''JSON''
   \<and> lower ''JSON'' = ''json''
   \<and> json_load example_env ''{'' = Inl ''Expecting value''
   \<and> (\<exists>msg. upload_file example_env
         \<lparr>upload = Some (''data.JSON'', ''{''), form_option = Some ''replace''\<rparr> example_db
         = (example_db, Response 400 (Error msg)))"
proof -
  have h1: "upload \<lparr>upload = Some (''data.JSON'', ''{''), form_option = Some ''replace''\<rparr>
     = Some (''data.JSON'', ''{'')" by simp
  have h2: "allowed_file ''data.JSON''"
    by (simp add: allowed_file_def rsplit_ext_def lower_def lower_char_def ALLOWED_EXTENSIONS_def)
  have h3: "rsplit_ext (secure_filename example_env ''data.JSON'') = Some ''JSON''"
    by (simp add: rsplit_ext_def example_env_def)
  have h4: "lower ''JSON'' = ''json''" by (simp add: lower_def lower_char_def)
  have h5: "json_load example_env ''{'' = Inl ''Expecting value''"
    by (simp add: example_env_def)
  have h6: "(lower ''JSON'' = ''json'' \<and> json_load example_env ''{'' = Inl ''Expecting value'')
       \<or> (lower ''JSON'' = ''csv'' \<and> read_csv example_env ''{'' = Inl ''Expecting value'')
       \<or> ((lower ''JSON'' = ''xlsx'' \<or> lower ''JSON'' = ''xls'')
            \<and> read_excel example_env ''{'' = Inl ''Expecting value'')"
    using h4 h5 by blast
  show ?thesis
    using h1 h2 h3 h4 h5 decode_failure_leaves_store [OF h1 h2 h3 h6] by blast
qed

section \<open>\<^verbatim>\<open>POST /api/init\<close>\<close>

lemma init_database_result:
  "init_database env c =
     (c\<lparr>rows :=
          [\<lparr>title = SText ''Climate change impacts on agriculture'', topic = SText ''climate'',
            sector = SText ''agriculture'', region = SText ''North America'',
            country = SText ''United States'', source = SText ''NASA'',
            end_year = SText ''2025'', intensity = SInt 5, likelihood = SInt 3,
            relevance = SInt 4, pest = SText ''Environmental'', swot = SText ''Threat'',
            url = SText ''https://climate.nasa.gov'', row_id = Suc (seq c),
            added_date = current_timestamp env (Suc (seq c))\<rparr>,
           \<lparr>title = SText ''Renewable energy adoption trends'', topic = SText ''energy'',
            sector = SText ''utilities'', region = SText ''Europe'',
            country = SText ''Germany'', source = SText ''IEA'',
            end_year = SText ''2023'', intensity = SInt 4, likelihood = SInt 5,
            relevance = SInt 5, pest = SText ''Technological'', swot = SText ''Opportunity'',
            url = SText ''https://www.iea.org'', row_id = Suc (Suc (seq c)),
            added_date = current_timestamp env (Suc (Suc (seq c)))\<rparr>],
        seq := Suc (Suc (seq c))\<rparr>,
      Summary 2 ''Successfully processed 2 records'')"
  by (simp add: init_database_def insert_data_def execute_delete_def sample_data_def
      try_insert_def execute_insert_def make_row_def dict_get_def
      str_nat_digit digit_char_def)

text \<open>
  Claim C8.  On every store, \<^verbatim>\<open>POST /api/init\<close> answers with count 2 and leaves exactly
  two rows, whose schema fields are those of the two sample records; a second call
  answers the same and leaves the same two records again, not four.
\<close>

theorem init_database_idempotent:
  "snd (init_database env c) = Summary 2 ''Successfully processed 2 records''
   \<and> get_data_count (fst (init_database env c)) = 2
   \<and> map schema_fields.truncate (rows (fst (init_database env c))) =
       [\<lparr>title = SText ''Climate change impacts on agriculture'', topic = SText ''climate'',
         sector = SText ''agriculture'', region = SText ''North America'',
         country = SText ''United States'', source = SText ''NASA'',
         end_year = SText ''2025'', intensity = SInt 5, likelihood = SInt 3,
         relevance = SInt 4, pest = SText ''Environmental'', swot = SText ''Threat'',
         url = SText ''https://climate.nasa.gov''\<rparr>,
        \<lparr>title = SText ''Renewable energy adoption trends'', topic = SText ''energy'',
         sector = SText ''utilities'', region = SText ''Europe'',
         country = SText ''Germany'', source = SText ''IEA'',
         end_year = SText ''2023'', intensity = SInt 4, likelihood = SInt 5,
         relevance = SInt 5, pest = SText ''Technological'', swot = SText ''Opportunity'',
         url = SText ''https://www.iea.org''\<rparr>]
   \<and> snd (init_database env (fst (init_database env c))) = snd (init_database env c)
   \<and> get_data_count (fst (init_database env (fst (init_database env c)))) = 2
   \<and> map schema_fields.truncate (rows (fst (init_database env (fst (init_database env c)))))
       = map schema_fields.truncate (rows (fst (init_database env c)))"
  by (simp add: init_database_result get_data_count_def
      schema_fields.truncate_def row.defs schema_fields.defs)

section \<open>An empty batch\<close>

text \<open>
  Claim C10.  A JSON upload that decodes to the empty array, in replace mode, deletes
  every row of the store and is answered with status 200, count 0 and the message
  \<^verbatim>\<open>Successfully processed 0 records\<close>.
\<close>

theorem empty_batch_replace:
  assumes "upload req = Some (fname, content)" and "allowed_file fname"
    and "rsplit_ext (secure_filename env fname) = Some e" and "lower e = ''json''"
    and "form_option req = None \<or> form_option req = Some ''replace''"
    and "json_load env content = Inr (PList [])"
  shows "upload_file env req c =
           (c\<lparr>rows := []\<rparr>, Response 200 (Summary 0 ''Successfully processed 0 records''))"
proof -
  from assms(5)
  have "lower (case form_option req of None \<Rightarrow> ''replace'' | Some s \<Rightarrow> s) \<noteq> ''append''"
    by (auto simp: lower_def lower_char_def)
  with assms(4,6) show ?thesis
    unfolding upload_file_dispatch [OF assms(1-3)]
    by (simp add: process_json_file_def insert_data_def execute_delete_def
        str_nat_digit digit_char_def)
qed

theorem empty_batch_replace_witness:
  "upload \<lparr>upload = Some (''empty.json'', ''[]''), form_option = None\<rparr>
     = Some (''empty.json'', ''[]'')
   \<and> allowed_file ''empty.json''
   \<and> rsplit_ext (secure_filename example_env ''empty.json'') = Some ''json''
   \<and> lower ''json'' = ''json''
   \<and> json_load example_env ''[]'' = Inr (PList [])
   \<and> rows example_db \<noteq> []
   \<and> upload_file example_env \<lparr>upload = Some (''empty.json'', ''[]''), form_option = None\<rparr>
         example_db
       = (example_db\<lparr>rows := []\<rparr>,
          Response 200 (Summary 0 ''Successfully processed 0 records''))"
proof -
  have h1: "upload \<lparr>upload = Some (''empty.json'', ''[]''), form_option = None\<rparr>
     = Some (''empty.json'', ''[]'')" by simp
  have h2: "allowed_file ''empty.json''"
    by (simp add: allowed_file_def rsplit_ext_def lower_def lower_char_def ALLOWED_EXTENSIONS_def)
  have h3: "rsplit_ext (secure_filename example_env ''empty.json'') = Some ''json''"
    by (simp add: rsplit_ext_def example_env_def)
  have h4: "lower ''json'' = ''json''" by (simp add: lower_def lower_char_def)
  have h5: "form_option \<lparr>upload = Some (''empty.json'', ''[]''), form_option = None\<rparr> = None
     \<or> form_option \<lparr>upload = Some (''empty.json'', ''[]''), form_option = None\<rparr>
         = Some ''replace''"
    by simp
  have h6: "json_load example_env ''[]'' = Inr (PList [])"
    by (simp add: example_env_def)
  have h7: "rows example_db \<noteq> []" by (simp add: example_db_def)
  show ?thesis
    using h1 h2 h3 h4 h6 h7 empty_batch_replace [OF h1 h2 h3 h4 h5 h6] by blast
qed

section \<open>The transaction of a replace\<close>

lemma conn_begin_view [simp]: "conn_view (conn_begin k) = conn_view k"
  by (simp add: conn_begin_def conn_view_def split: option.splits)

lemma conn_begin_disk [simp]: "disk (conn_begin k) = disk k"
  by (simp add: conn_begin_def split: option.splits)



lemma connect_disk [simp]: "disk (connect c) = c"
  by (simp add: connect_def)




end
